theory Spec2Isabelle
  imports Main
begin

section \<open>Python values\<close>

text \<open>
  The program is the Python script \<^verbatim>\<open>main.py\<close>: a metadata reader
  (\<^verbatim>\<open>get_exif_datetime\<close>), a position resolver (\<^verbatim>\<open>get_position\<close>), a renderer
  (\<^verbatim>\<open>add_watermark\<close>) and a batch driver (\<^verbatim>\<open>main\<close>). Python integers are
  unbounded and are \<^typ>\<open>int\<close> here. File names, colour names and anchors are ASCII and
  are \<^typ>\<open>string\<close>. The watermark text can hold the characters U+5E74, U+6708 and
  U+65E5, which no \<^typ>\<open>char\<close> can hold, so a text is the list of its code points, as a
  Python \<^verbatim>\<open>str\<close> is.
\<close>

type_synonym unicode = "nat list"

definition ustr :: "string \<Rightarrow> unicode" where
  "ustr s = map of_char s"

text \<open>\<^verbatim>\<open>str(n)\<close>, which is what an f-string does with an integer field.\<close>

definition digit :: "nat \<Rightarrow> char" where
  "digit n = ''0123456789'' ! n"

fun str_nat :: "nat \<Rightarrow> string" where
  "str_nat n = (if n < 10 then [digit n] else str_nat (n div 10) @ [digit (n mod 10)])"

declare str_nat.simps [simp del]

definition str_int :: "int \<Rightarrow> string" where
  "str_int i = (if i < 0 then CHR ''-'' # str_nat (nat (- i)) else str_nat (nat i))"

text \<open>Left padding with zeros up to a width, as \<^verbatim>\<open>%m\<close> and \<^verbatim>\<open>%d\<close> print a field.\<close>

definition zfill :: "nat \<Rightarrow> string \<Rightarrow> string" where
  "zfill n s = replicate (n - length s) (CHR ''0'') @ s"

text \<open>\<^verbatim>\<open>str.upper\<close> on ASCII text.\<close>

definition upper_char :: "char \<Rightarrow> char" where
  "upper_char c =
     (let n = (of_char c :: nat) in if 97 \<le> n \<and> n \<le> 122 then char_of (n - 32) else c)"

definition upper :: "string \<Rightarrow> string" where
  "upper s = map upper_char s"

subsection \<open>Dates\<close>

text \<open>
  A date is (year, month, day). \<^verbatim>\<open>datetime.now().strftime("%Y\<dots>%m\<dots>%d\<dots>")\<close> with the
  three separators U+5E74 (24180), U+6708 (26376) and U+65E5 (26085): the year in four
  digits, month and day in two, as the Python documentation gives \<^verbatim>\<open>%Y\<close>, \<^verbatim>\<open>%m\<close>
  and \<^verbatim>\<open>%d\<close>.
\<close>

type_synonym date = "int \<times> int \<times> int"

definition strftime :: "date \<Rightarrow> unicode" where
  "strftime dt =
     (case dt of (y, m, d) \<Rightarrow>
        ustr (zfill 4 (str_int y)) @ [24180] @ ustr (zfill 2 (str_int m)) @ [26376]
          @ ustr (zfill 2 (str_int d)) @ [26085])"

subsection \<open>Paths\<close>

text \<open>
  \<^verbatim>\<open>os.path.basename\<close>, \<^verbatim>\<open>os.path.dirname\<close> and \<^verbatim>\<open>os.path.join\<close> (with two
  arguments) of \<^verbatim>\<open>posixpath\<close>. \<open>head_of p\<close> is \<^verbatim>\<open>p[:i]\<close> and \<open>basename p\<close> is
  \<^verbatim>\<open>p[i:]\<close> for \<^verbatim>\<open>i = p.rfind('/') + 1\<close>.
\<close>

definition basename :: "string \<Rightarrow> string" where
  "basename p = rev (takeWhile (\<lambda>c. c \<noteq> CHR ''/'') (rev p))"

definition head_of :: "string \<Rightarrow> string" where
  "head_of p = rev (dropWhile (\<lambda>c. c \<noteq> CHR ''/'') (rev p))"

definition rstrip_sep :: "string \<Rightarrow> string" where
  "rstrip_sep p = rev (dropWhile (\<lambda>c. c = CHR ''/'') (rev p))"

definition dirname :: "string \<Rightarrow> string" where
  "dirname p =
     (let head = head_of p
      in if head \<noteq> [] \<and> \<not> list_all (\<lambda>c. c = CHR ''/'') head then rstrip_sep head else head)"

definition join :: "string \<Rightarrow> string \<Rightarrow> string" where
  "join a b =
     (if (case b of [] \<Rightarrow> False | c # _ \<Rightarrow> c = CHR ''/'') then b
      else if a = [] \<or> last a = CHR ''/'' then a @ b
      else a @ ''/'' @ b)"

section \<open>Position Resolver\<close>

text \<open>
  \<^verbatim>\<open>get_position(img_width, img_height, text_width, text_height, position)\<close> of
  \<^verbatim>\<open>main.py\<close>. Python integers are unbounded, so the four sizes are \<^typ>\<open>int\<close>;
  Python's \<^verbatim>\<open>//\<close> rounds towards minus infinity, as \<open>div\<close> on \<^typ>\<open>int\<close> does.
  The branches are kept in the order of the source.
\<close>

definition padding :: int where
  "padding = 20"

definition get_position :: "int \<Rightarrow> int \<Rightarrow> int \<Rightarrow> int \<Rightarrow> string \<Rightarrow> int \<times> int" where
  "get_position img_width img_height text_width text_height position =
     (if position = ''top-left'' then (padding, padding)
      else if position = ''top-right'' then (img_width - text_width - padding, padding)
      else if position = ''bottom-left'' then (padding, img_height - text_height - padding)
      else if position = ''bottom-right'' then
        (img_width - text_width - padding, img_height - text_height - padding)
      else if position = ''center'' then
        ((img_width - text_width) div 2, (img_height - text_height) div 2)
      else if position = ''top-center'' then ((img_width - text_width) div 2, padding)
      else if position = ''bottom-center'' then
        ((img_width - text_width) div 2, img_height - text_height - padding)
      else (img_width - text_width - padding, img_height - text_height - padding))"

text \<open>The seven values that the command line accepts for \<^verbatim>\<open>--position\<close>.\<close>

definition anchors :: "string list" where
  "anchors = [''top-left'', ''top-center'', ''top-right'', ''center'',
              ''bottom-left'', ''bottom-center'', ''bottom-right'']"

text \<open>
  The rectangle of the specification: a point \<open>(x, y)\<close> such that the text box drawn
  there stays inside the image, \<open>0 \<le> x \<le> W - textW\<close> and \<open>0 \<le> y \<le> H - textH\<close>.
\<close>

definition within_image :: "int \<Rightarrow> int \<Rightarrow> int \<Rightarrow> int \<Rightarrow> int \<times> int \<Rightarrow> bool" where
  "within_image W H textW textH p =
     (0 \<le> fst p \<and> fst p \<le> W - textW \<and> 0 \<le> snd p \<and> snd p \<le> H - textH)"

section \<open>Images, the file system and the library\<close>

text \<open>
  What the script sees of an image file through Pillow: its mode, its size, what
  \<^verbatim>\<open>img._getexif()\<close> does on it, and the texts drawn on it so far. An EXIF value is
  a \<^verbatim>\<open>str\<close> or something else; of the latter only its truth value is looked at
  before \<^verbatim>\<open>strptime\<close> rejects it.
\<close>

datatype exif_value = Str string | Other bool

datatype exif_result = GetexifRaises | GetexifNone | GetexifDict "(int \<times> exif_value) list"

datatype font = TrueType string int | DefaultFont

datatype draw_op = Text "int \<times> int" unicode font string

record image =
  mode :: string
  width :: int
  height :: int
  exif :: exif_result
  drawn :: "draw_op list"

text \<open>
  The file system maps a path to what is there: a regular file, which decodes as an
  image or does not, a directory, or something else that exists (\<open>Special\<close>). A
  directory carries the names that a scan of it lists, in the order of the scan. Paths
  are compared as strings; links are not modelled.
\<close>

datatype content = Undecodable | Picture image

datatype node = File content | Dir "string list" | Special

type_synonym filesystem = "string \<Rightarrow> node option"

text \<open>Every exception that can reach a handler of the script, named by the call that raises it.\<close>

datatype exn =
    Image_open_error
  | getexif_error
  | strptime_ValueError
  | strptime_TypeError
  | convert_error
  | textbbox_error
  | text_error
  | save_error
  | makedirs_error

text \<open>
  The behaviour of the libraries that the script calls and does not define is a parameter
  of the model:
  \<^item> \<open>TAGS\<close> is the table \<^verbatim>\<open>ExifTags.TAGS\<close>;
  \<^item> \<open>strptime\<close> is \<^verbatim>\<open>datetime.strptime(value, '%Y:%m:%d %H:%M:%S')\<close> on a
    \<^verbatim>\<open>str\<close>, giving the date of the result, or \<open>None\<close> for its \<^verbatim>\<open>ValueError\<close>;
  \<^item> \<open>now\<close> is the date of \<^verbatim>\<open>datetime.now()\<close>;
  \<^item> \<open>truetype path size\<close> says whether \<^verbatim>\<open>ImageFont.truetype(path, size)\<close> returns
    a font;
  \<^item> \<open>textbbox\<close> is \<^verbatim>\<open>draw.textbbox((0, 0), text, font=font)\<close>, \<open>None\<close> when it
    raises;
  \<^item> \<open>color_known\<close> says whether \<^verbatim>\<open>draw.text\<close> accepts a fill value;
  \<^item> \<open>can_convert m m'\<close> says whether \<^verbatim>\<open>img.convert(m')\<close> succeeds on mode \<open>m\<close>;
  \<^item> \<open>can_save\<close> says whether \<^verbatim>\<open>img.save(path, quality=95)\<close> succeeds.
\<close>

record library =
  TAGS :: "int \<Rightarrow> string option"
  strptime :: "string \<Rightarrow> date option"
  now :: date
  truetype :: "string \<Rightarrow> int \<Rightarrow> bool"
  textbbox :: "font \<Rightarrow> unicode \<Rightarrow> (int \<times> int \<times> int \<times> int) option"
  color_known :: "string \<Rightarrow> bool"
  can_convert :: "string \<Rightarrow> string \<Rightarrow> bool"
  can_save :: "string \<Rightarrow> image \<Rightarrow> bool"

text \<open>The lines that the script prints, one constructor for each \<^verbatim>\<open>print\<close>.\<close>

datatype message =
    ExifReadFailed string exn
  | WatermarkText unicode
  | UsingDefaultFont
  | Saved string
  | ProcessError string exn
  | PathMissing string
  | NoImagesFound string
  | Found int
  | OutputDir string
  | Settings int string string
  | Rule
  | Processing string
  | Done string
  | Traceback exn

record world =
  fs :: filesystem
  out :: "message list"

definition say :: "message list \<Rightarrow> world \<Rightarrow> world" where
  "say ms w = w\<lparr>out := out w @ ms\<rparr>"

definition exists :: "filesystem \<Rightarrow> string \<Rightarrow> bool" where
  "exists f p = (f p \<noteq> None)"

definition isfile :: "filesystem \<Rightarrow> string \<Rightarrow> bool" where
  "isfile f p = (case f p of Some (File _) \<Rightarrow> True | _ \<Rightarrow> False)"

definition Image_open :: "filesystem \<Rightarrow> string \<Rightarrow> exn + image" where
  "Image_open f p =
     (case f p of Some (File (Picture img)) \<Rightarrow> Inr img | _ \<Rightarrow> Inl Image_open_error)"

definition convert :: "library \<Rightarrow> image \<Rightarrow> string \<Rightarrow> exn + image" where
  "convert L img m =
     (if can_convert L (mode img) m then Inr (img\<lparr>mode := m\<rparr>) else Inl convert_error)"

definition draw_text ::
    "library \<Rightarrow> image \<Rightarrow> int \<times> int \<Rightarrow> unicode \<Rightarrow> font \<Rightarrow> string \<Rightarrow> exn + image" where
  "draw_text L img xy txt fnt fill =
     (if color_known L fill then Inr (img\<lparr>drawn := drawn img @ [Text xy txt fnt fill]\<rparr>)
      else Inl text_error)"

section \<open>Metadata Reader\<close>

text \<open>
  \<^verbatim>\<open>get_exif_datetime(image_path)\<close>. \<open>TAGS_get\<close> is \<^verbatim>\<open>ExifTags.TAGS.get(tag_id, tag_id)\<close>:
  the name of the tag, or the number itself when the table has no name for it, which is
  then different from the string it is compared with. \<open>format_date\<close> is the f-string of
  line 21, whose separator is the backslash (code point 92). \<open>scan_exif\<close> is the loop
  over \<^verbatim>\<open>exif_data.items()\<close>: an entry named DateTimeOriginal with a true value ends
  it, by a return or by the exception of \<^verbatim>\<open>strptime\<close>; any other entry is passed over.
\<close>

definition TAGS_get :: "library \<Rightarrow> int \<Rightarrow> string + int" where
  "TAGS_get L tag_id = (case TAGS L tag_id of Some name \<Rightarrow> Inl name | None \<Rightarrow> Inr tag_id)"

fun truthy :: "exif_value \<Rightarrow> bool" where
  "truthy (Str s) = (s \<noteq> [])"
| "truthy (Other b) = b"

definition format_date :: "date \<Rightarrow> unicode" where
  "format_date dt =
     (case dt of (y, m, d) \<Rightarrow>
        ustr (str_int y) @ [92] @ ustr (str_int m) @ [92] @ ustr (str_int d))"

fun scan_exif :: "library \<Rightarrow> (int \<times> exif_value) list \<Rightarrow> exn + unicode option" where
  "scan_exif L [] = Inr None"
| "scan_exif L ((tag_id, v) # rest) =
     (if TAGS_get L tag_id = Inl ''DateTimeOriginal'' then
        (if truthy v then
           (case v of
              Str s \<Rightarrow>
                (case strptime L s of
                   None \<Rightarrow> Inl strptime_ValueError
                 | Some dt \<Rightarrow> Inr (Some (format_date dt)))
            | Other _ \<Rightarrow> Inl strptime_TypeError)
         else scan_exif L rest)
      else scan_exif L rest)"

text \<open>The body of the \<^verbatim>\<open>try\<close>: \<open>Inl\<close> is an exception on its way to the handler.\<close>

definition read_exif :: "library \<Rightarrow> filesystem \<Rightarrow> string \<Rightarrow> exn + unicode option" where
  "read_exif L f image_path =
     (case Image_open f image_path of
        Inl e \<Rightarrow> Inl e
      | Inr img \<Rightarrow>
          (case exif img of
             GetexifRaises \<Rightarrow> Inl getexif_error
           | GetexifNone \<Rightarrow> Inr None
           | GetexifDict exif_data \<Rightarrow>
               (if exif_data \<noteq> [] then scan_exif L exif_data else Inr None)))"

text \<open>The function with its handler, which prints the path and the exception.\<close>

definition get_exif_datetime :: "library \<Rightarrow> world \<Rightarrow> string \<Rightarrow> unicode option \<times> world" where
  "get_exif_datetime L w image_path =
     (case read_exif L (fs w) image_path of
        Inl e \<Rightarrow> (None, say [ExifReadFailed image_path e] w)
      | Inr r \<Rightarrow> (r, w))"

section \<open>Watermark Renderer\<close>

text \<open>
  \<^verbatim>\<open>add_watermark(image_path, output_path, font_size, color, position)\<close>, in the
  stages of the source: opening and conversion to RGBA (lines 53 to 56), the text (62 to
  65), the font (68 to 78), the measure and the two drawings (81 to 93), and the
  conversion to RGB with the save (96 to 100). Each stage returns the world too, since
  what it has printed stays printed when a later stage raises.
\<close>

definition open_rgba :: "library \<Rightarrow> filesystem \<Rightarrow> string \<Rightarrow> exn + image" where
  "open_rgba L f image_path =
     (case Image_open f image_path of
        Inl e \<Rightarrow> Inl e
      | Inr img \<Rightarrow> (if mode img \<noteq> ''RGBA'' then convert L img ''RGBA'' else Inr img))"

text \<open>\<^verbatim>\<open>if not watermark_text\<close> holds for \<^verbatim>\<open>None\<close> and for the empty string.\<close>

definition watermark_text :: "library \<Rightarrow> world \<Rightarrow> string \<Rightarrow> unicode \<times> world" where
  "watermark_text L w image_path =
     (case get_exif_datetime L w image_path of
        (r, w1) \<Rightarrow>
          (let today = strftime (now L) in
           case r of
             None \<Rightarrow> (today, say [WatermarkText today] w1)
           | Some t \<Rightarrow> (if t = [] then (today, say [WatermarkText today] w1) else (t, w1))))"

definition load_font :: "library \<Rightarrow> world \<Rightarrow> int \<Rightarrow> font \<times> world" where
  "load_font L w font_size =
     (if truetype L ''arial.ttf'' font_size then (TrueType ''arial.ttf'' font_size, w)
      else if truetype L ''/System/Library/Fonts/Arial.ttf'' font_size then
        (TrueType ''/System/Library/Fonts/Arial.ttf'' font_size, w)
      else if truetype L ''/usr/share/fonts/truetype/dejavu/DejaVuSans.ttf'' font_size then
        (TrueType ''/usr/share/fonts/truetype/dejavu/DejaVuSans.ttf'' font_size, w)
      else (DefaultFont, say [UsingDefaultFont] w))"

definition shadow_color :: "string \<Rightarrow> string" where
  "shadow_color color = (if color = ''white'' then ''black'' else ''black'')"

definition working_image ::
    "library \<Rightarrow> world \<Rightarrow> string \<Rightarrow> int \<Rightarrow> string \<Rightarrow> string \<Rightarrow> (exn + image) \<times> world" where
  "working_image L w image_path font_size color position =
     (case open_rgba L (fs w) image_path of
        Inl e \<Rightarrow> (Inl e, w)
      | Inr img \<Rightarrow>
          (case watermark_text L w image_path of
             (txt, w1) \<Rightarrow>
               (case load_font L w1 font_size of
                  (fnt, w2) \<Rightarrow>
                    (case textbbox L fnt txt of
                       None \<Rightarrow> (Inl textbbox_error, w2)
                     | Some (b0, b1, b2, b3) \<Rightarrow>
                         (let text_width = b2 - b0;
                              text_height = b3 - b1;
                              xy = get_position (width img) (height img)
                                     text_width text_height position
                          in case draw_text L img (fst xy + 2, snd xy + 2) txt fnt
                                    (shadow_color color) of
                               Inl e \<Rightarrow> (Inl e, w2)
                             | Inr img1 \<Rightarrow> (draw_text L img1 xy txt fnt color, w2))))))"

text \<open>
  The whole body of the \<^verbatim>\<open>try\<close>. On success it returns the image that was written
  and the world in which the file is there and the line of line 100 is printed.
\<close>

definition render ::
    "library \<Rightarrow> world \<Rightarrow> string \<Rightarrow> string \<Rightarrow> int \<Rightarrow> string \<Rightarrow> string
      \<Rightarrow> (exn + image) \<times> world" where
  "render L w image_path output_path font_size color position =
     (case working_image L w image_path font_size color position of
        (Inl e, w1) \<Rightarrow> (Inl e, w1)
      | (Inr img, w1) \<Rightarrow>
          (case (if mode img = ''RGBA'' then convert L img ''RGB'' else Inr img) of
             Inl e \<Rightarrow> (Inl e, w1)
           | Inr img' \<Rightarrow>
               (if can_save L output_path img' then
                  (Inr img',
                   say [Saved output_path]
                     (w1\<lparr>fs := (fs w1)(output_path \<mapsto> File (Picture img'))\<rparr>))
                else (Inl save_error, w1))))"

text \<open>
  The function with its handler (lines 102 and 103): the exception is printed and the
  function returns normally, so the caller cannot tell a failure from a success.
\<close>

definition add_watermark ::
    "library \<Rightarrow> world \<Rightarrow> string \<Rightarrow> string \<Rightarrow> int \<Rightarrow> string \<Rightarrow> string \<Rightarrow> world" where
  "add_watermark L w image_path output_path font_size color position =
     (case render L w image_path output_path font_size color position of
        (Inl e, w1) \<Rightarrow> say [ProcessError image_path e] w1
      | (Inr _, w1) \<Rightarrow> w1)"

section \<open>Batch Driver\<close>

subsection \<open>Scanning a directory\<close>

text \<open>
  \<^verbatim>\<open>glob.glob(pathname)\<close> for a path name whose last component is a pattern, on a
  POSIX system, where names are matched with regard to case. \<open>fnmatch name pat\<close> matches
  a name against a pattern made of \<^verbatim>\<open>*\<close>, \<^verbatim>\<open>?\<close> and literal characters, which is
  all that the patterns of the script contain. \<open>glob1\<close> lists the directory (a path that
  cannot be listed gives no name) and, for a pattern that does not begin with a dot,
  leaves out the names that do. The directory part is taken literally: \<^verbatim>\<open>glob\<close>
  expands a directory part that itself contains \<^verbatim>\<open>*\<close>, \<^verbatim>\<open>?\<close> or \<^verbatim>\<open>[\<close> as a
  pattern, which is not modelled, and the statements about the scan are for directory
  names without these characters (\<open>has_magic\<close>).
\<close>

fun fnmatch :: "string \<Rightarrow> string \<Rightarrow> bool" where
  "fnmatch name [] = (name = [])"
| "fnmatch name (p # pat) =
     (if p = CHR ''*'' then
        fnmatch name pat
        \<or> (case name of [] \<Rightarrow> False | c # rest \<Rightarrow> fnmatch rest (p # pat))
      else if p = CHR ''?'' then (case name of [] \<Rightarrow> False | c # rest \<Rightarrow> fnmatch rest pat)
      else (case name of [] \<Rightarrow> False | c # rest \<Rightarrow> c = p \<and> fnmatch rest pat))"

definition has_magic :: "string \<Rightarrow> bool" where
  "has_magic p = list_ex (\<lambda>c. c = CHR ''*'' \<or> c = CHR ''?'' \<or> c = CHR ''['') p"

definition ishidden :: "string \<Rightarrow> bool" where
  "ishidden p = (case p of [] \<Rightarrow> False | c # _ \<Rightarrow> c = CHR ''.'')"

definition listdir :: "filesystem \<Rightarrow> string \<Rightarrow> string list" where
  "listdir f d = (case f d of Some (Dir names) \<Rightarrow> names | _ \<Rightarrow> [])"

definition glob1 :: "filesystem \<Rightarrow> string \<Rightarrow> string \<Rightarrow> string list" where
  "glob1 f d pattern =
     (let names = listdir f (if d = [] then ''.'' else d);
          names' = (if \<not> ishidden pattern then filter (\<lambda>x. \<not> ishidden x) names else names)
      in filter (\<lambda>x. fnmatch x pattern) names')"

definition glob_glob :: "filesystem \<Rightarrow> string \<Rightarrow> string list" where
  "glob_glob f pathname =
     (let d = dirname pathname; pattern = basename pathname
      in if d = [] then glob1 f d pattern else map (join d) (glob1 f d pattern))"

subsection \<open>The working set\<close>

text \<open>
  Lines 124 to 133: the list \<^verbatim>\<open>image_files\<close> and the directory \<^verbatim>\<open>input_dir\<close>.
  \<open>extend_files\<close> is the body of the loop over \<^verbatim>\<open>image_extensions\<close>.
\<close>

definition image_extensions :: "string list" where
  "image_extensions = [''*.jpg'', ''*.jpeg'', ''*.png'', ''*.bmp'', ''*.tiff'', ''*.webp'']"

definition extend_files :: "filesystem \<Rightarrow> string \<Rightarrow> string list \<Rightarrow> string \<Rightarrow> string list" where
  "extend_files f input_dir image_files ext =
     (image_files @ glob_glob f (join input_dir ext)) @ glob_glob f (join input_dir (upper ext))"

definition resolve_input :: "filesystem \<Rightarrow> string \<Rightarrow> string list \<times> string" where
  "resolve_input f path =
     (if isfile f path then
        ([path], (let d = dirname path in if d \<noteq> [] then d else ''.''))
      else (foldl (extend_files f path) [] image_extensions, path))"

subsection \<open>The run\<close>

text \<open>
  \<^verbatim>\<open>os.makedirs(output_dir, exist_ok=True)\<close>: nothing to do when a directory is
  there, a new directory when nothing is there, and an exception when something else
  is there.
\<close>

definition makedirs :: "filesystem \<Rightarrow> string \<Rightarrow> exn + filesystem" where
  "makedirs f name =
     (case f name of
        None \<Rightarrow> Inr (f(name \<mapsto> Dir []))
      | Some (Dir names) \<Rightarrow> Inr f
      | Some _ \<Rightarrow> Inl makedirs_error)"

text \<open>The arguments as \<^verbatim>\<open>argparse\<close> hands them over.\<close>

record args =
  args_image_path :: string
  args_font_size :: int
  args_color :: string
  args_position :: string

text \<open>
  The loop of lines 150 to 160. \<open>add_watermark\<close> returns normally whatever happens to
  the image, and neither \<^verbatim>\<open>basename\<close> nor \<^verbatim>\<open>join\<close> raises, so the handler of
  line 159 is never entered and the count goes up at every file.
\<close>

fun process_images ::
    "library \<Rightarrow> args \<Rightarrow> string \<Rightarrow> string list \<Rightarrow> world \<times> int \<Rightarrow> world \<times> int" where
  "process_images L a output_dir [] (w, success_count) = (w, success_count)"
| "process_images L a output_dir (image_path # rest) (w, success_count) =
     (let filename = basename image_path;
          output_path = join output_dir filename;
          w1 = add_watermark L (say [Processing filename] w) image_path output_path
                 (args_font_size a) (args_color a) (args_position a)
      in process_images L a output_dir rest (w1, success_count + 1))"

text \<open>
  \<open>main\<close> returns the exit status of the process and the world it leaves behind. An
  exception that nothing catches ends the process with a trace and status 1.
\<close>

record run =
  status :: int
  final :: world

definition tally :: "int \<Rightarrow> int \<Rightarrow> string" where
  "tally success_count n = str_int success_count @ ''/'' @ str_int n"

definition main :: "library \<Rightarrow> args \<Rightarrow> world \<Rightarrow> run" where
  "main L a w =
     (if \<not> exists (fs w) (args_image_path a) then
        \<lparr>status = 1, final = say [PathMissing (args_image_path a)] w\<rparr>
      else
        (case resolve_input (fs w) (args_image_path a) of
           (image_files, input_dir) \<Rightarrow>
             (if image_files = [] then
                \<lparr>status = 1, final = say [NoImagesFound (args_image_path a)] w\<rparr>
              else
                (let output_dir = join input_dir (basename input_dir @ ''_watermark'')
                 in case makedirs (fs w) output_dir of
                      Inl e \<Rightarrow> \<lparr>status = 1, final = say [Traceback e] w\<rparr>
                    | Inr f1 \<Rightarrow>
                        (case process_images L a output_dir image_files
                                (say [Found (int (length image_files)), OutputDir output_dir,
                                      Settings (args_font_size a) (args_color a)
                                        (args_position a),
                                      Rule]
                                   (w\<lparr>fs := f1\<rparr>), 0) of
                           (w1, success_count) \<Rightarrow>
                             \<lparr>status = 0,
                              final = say [Rule,
                                        Done (tally success_count
                                                (int (length image_files)))] w1\<rparr>)))))"

section \<open>The specification's notions\<close>




text \<open>
  The working set of a directory, in the words of the specification: the entries whose
  extension, the part of the name after its last dot, is one of the six when letter case
  is ignored.
\<close>

definition lower_char :: "char \<Rightarrow> char" where
  "lower_char c =
     (let n = (of_char c :: nat) in if 65 \<le> n \<and> n \<le> 90 then char_of (n + 32) else c)"

definition extension :: "string \<Rightarrow> string" where
  "extension name =
     (if CHR ''.'' \<in> set name then rev (takeWhile (\<lambda>c. c \<noteq> CHR ''.'') (rev name)) else [])"

definition spec_working_set :: "filesystem \<Rightarrow> string \<Rightarrow> string list" where
  "spec_working_set f d =
     map (join d)
       (filter (\<lambda>name. List.member [''jpg'', ''jpeg'', ''png'', ''bmp'', ''tiff'', ''webp'']
                          (map lower_char (extension name)))
          (listdir f d))"

text \<open>What the scan does match: a name that ends in a given suffix.\<close>

definition endswith :: "string \<Rightarrow> string \<Rightarrow> bool" where
  "endswith name suffix =
     (length suffix \<le> length name \<and> drop (length name - length suffix) name = suffix)"

definition scanned :: "string \<Rightarrow> bool" where
  "scanned name =
     (\<not> ishidden name
      \<and> list_ex (\<lambda>ext. endswith name (tl ext) \<or> endswith name (tl (upper ext)))
          image_extensions)"


section \<open>A sample installation\<close>

text \<open>
  A concrete library and file system, on which the statements below are tried. The
  parser reads the stamps of nineteen characters that cameras write, four digits for the
  year and two for every other field, and checks the ranges of the fields; on these
  stamps it gives what \<^verbatim>\<open>strptime\<close> gives (the library also reads fields of one
  digit, which the sample rejects). The table holds two rows of \<^verbatim>\<open>ExifTags.TAGS\<close>.
\<close>

definition digit_value :: "char \<Rightarrow> nat option" where
  "digit_value c =
     (let n = (of_char c :: nat) in if 48 \<le> n \<and> n \<le> 57 then Some (n - 48) else None)"

fun number :: "string \<Rightarrow> nat \<Rightarrow> nat option" where
  "number [] acc = Some acc"
| "number (c # cs) acc =
     (case digit_value c of None \<Rightarrow> None | Some v \<Rightarrow> number cs (10 * acc + v))"

definition days_in_month :: "nat \<Rightarrow> nat \<Rightarrow> nat" where
  "days_in_month y m =
     (if m = 2 then (if y mod 400 = 0 \<or> (y mod 4 = 0 \<and> y mod 100 \<noteq> 0) then 29 else 28)
      else if m = 4 \<or> m = 6 \<or> m = 9 \<or> m = 11 then 30
      else 31)"

definition sample_strptime :: "string \<Rightarrow> date option" where
  "sample_strptime s =
     (if length s = 19 \<and> s ! 4 = CHR '':'' \<and> s ! 7 = CHR '':'' \<and> s ! 10 = CHR '' ''
         \<and> s ! 13 = CHR '':'' \<and> s ! 16 = CHR '':'' then
        Option.bind (number (take 4 s) 0) (\<lambda>y.
        Option.bind (number (take 2 (drop 5 s)) 0) (\<lambda>m.
        Option.bind (number (take 2 (drop 8 s)) 0) (\<lambda>d.
        Option.bind (number (take 2 (drop 11 s)) 0) (\<lambda>hh.
        Option.bind (number (take 2 (drop 14 s)) 0) (\<lambda>mm.
        Option.bind (number (take 2 (drop 17 s)) 0) (\<lambda>ss.
          if 1 \<le> y \<and> 1 \<le> m \<and> m \<le> 12 \<and> 1 \<le> d \<and> d \<le> days_in_month y m
             \<and> hh \<le> 23 \<and> mm \<le> 59 \<and> ss \<le> 59
          then Some (int y, int m, int d) else None))))))
      else None)"

definition sample_library :: library where
  "sample_library =
     \<lparr>TAGS = (\<lambda>tag_id. if tag_id = 36867 then Some ''DateTimeOriginal''
                        else if tag_id = 271 then Some ''Make'' else None),
      strptime = sample_strptime,
      now = (2026, 11, 6),
      truetype = (\<lambda>path sz. path = ''/usr/share/fonts/truetype/dejavu/DejaVuSans.ttf''
                              \<and> 0 < sz),
      textbbox = (\<lambda>fnt txt. Some (0, 8, 20 * int (length txt), 38)),
      color_known = (\<lambda>c. List.member [''white'', ''black'', ''red''] c),
      can_convert = (\<lambda>m m'. True),
      can_save = (\<lambda>path img. List.member [''jpg'', ''jpeg'', ''png'', ''bmp'', ''tiff'', ''webp'']
                                 (map lower_char (extension path)))\<rparr>"

definition photo :: "exif_result \<Rightarrow> image" where
  "photo e = \<lparr>mode = ''RGB'', width = 640, height = 480, exif = e, drawn = []\<rparr>"

definition sample_fs :: filesystem where
  "sample_fs =
     [''photos'' \<mapsto> Dir [''a.jpg'', ''b.jpg'', ''c.jpg'', ''d.jpg'', ''e.jpg''],
      ''photos/a.jpg'' \<mapsto>
        File (Picture (photo (GetexifDict [(271, Str ''ACME''),
                                           (36867, Str ''2023:10:15 12:30:45'')]))),
      ''photos/b.jpg'' \<mapsto>
        File (Picture (photo (GetexifDict [(36867, Str ''2023:01:05 08:00:00'')]))),
      ''photos/c.jpg'' \<mapsto> File (Picture (photo GetexifNone)),
      ''photos/d.jpg'' \<mapsto> File (Picture (photo (GetexifDict [(271, Str ''ACME'')]))),
      ''photos/e.jpg'' \<mapsto> File Undecodable,
      ''album'' \<mapsto> Dir [''photo.Jpg'', ''one.jpg'', ''TWO.PNG'', ''.hidden.jpg'', ''notes.txt''],
      ''album/photo.Jpg'' \<mapsto> File (Picture (photo GetexifNone)),
      ''album/one.jpg'' \<mapsto>
        File (Picture (photo (GetexifDict [(36867, Str ''yesterday'')]))),
      ''album/TWO.PNG'' \<mapsto> File (Picture (photo GetexifRaises)),
      ''album/.hidden.jpg'' \<mapsto> File (Picture (photo GetexifNone)),
      ''album/notes.txt'' \<mapsto> File Undecodable,
      ''taken'' \<mapsto> Dir [''a.jpg'', ''taken_watermark''],
      ''taken/a.jpg'' \<mapsto> File (Picture (photo GetexifNone)),
      ''taken/taken_watermark'' \<mapsto> File Undecodable]"

definition sample_world :: world where
  "sample_world = \<lparr>fs = sample_fs, out = []\<rparr>"

definition sample_args :: "string \<Rightarrow> args" where
  "sample_args path =
     \<lparr>args_image_path = path, args_font_size = 36, args_color = ''white'',
      args_position = ''bottom-right''\<rparr>"

section \<open>Properties of the Position Resolver\<close>

lemma half_between: "0 \<le> a \<Longrightarrow> 0 \<le> a div 2 \<and> a div 2 \<le> (a::int)"
  by arith

text \<open>
  C2, as stated, fails: the margin of 20 is applied without looking at the room that is
  left. On a 100 by 60 image with a 90 by 30 text, all sizes positive and the text no
  larger than the image, the anchor top-left gives \<open>(20, 20)\<close>, but \<open>x\<close> may be at most
  \<open>100 - 90 = 10\<close>.
\<close>

theorem get_position_leaves_image:
  "(0::int) < 100 \<and> (0::int) < 60 \<and> (0::int) < 90 \<and> (0::int) < 30
   \<and> (90::int) \<le> 100 \<and> (30::int) \<le> 60
   \<and> List.member anchors ''top-left''
   \<and> get_position 100 60 90 30 ''top-left'' = (20, 20)
   \<and> \<not> within_image 100 60 90 30 (get_position 100 60 90 30 ''top-left'')"
  by (simp add: get_position_def padding_def within_image_def anchors_def)

text \<open>
  C2, amended: when the image is at least 20 units wider and 20 units higher than the
  text (\<open>textW + 20 \<le> W\<close> and \<open>textH + 20 \<le> H\<close>), the coordinates for every anchor
  value lie within \<open>[0, W - textW] \<times> [0, H - textH]\<close>, and an anchor value that is not
  one of the seven gives the result of bottom-right.
\<close>

theorem get_position_within_margin:
  assumes "0 < W" and "0 < H" and "0 < textW" and "0 < textH"
    and "textW + 20 \<le> W" and "textH + 20 \<le> H"
  shows "within_image W H textW textH (get_position W H textW textH position)
    \<and> (\<not> List.member anchors position \<longrightarrow>
         get_position W H textW textH position
           = get_position W H textW textH ''bottom-right'')"
proof -
  have x: "0 \<le> (W - textW) div 2 \<and> (W - textW) div 2 \<le> W - textW"
    using assms by (simp add: half_between)
  have y: "0 \<le> (H - textH) div 2 \<and> (H - textH) div 2 \<le> H - textH"
    using assms by (simp add: half_between)
  show ?thesis
    using assms x y
    by (simp add: get_position_def padding_def within_image_def anchors_def)
qed

theorem get_position_within_margin_witness:
  "within_image 640 480 200 40 (get_position 640 480 200 40 ''center'')
   \<and> get_position 640 480 200 40 ''middle'' = get_position 640 480 200 40 ''bottom-right''
   \<and> get_position 640 480 200 40 ''middle'' = (420, 420)"
  using get_position_within_margin [of 640 480 200 40 "''center''"]
    get_position_within_margin [of 640 480 200 40 "''middle''"]
  by (simp add: get_position_def padding_def anchors_def)

text \<open>
  C4: the resolver is a function of its five arguments alone, with a margin of 20 and
  integer division, and it follows the table of the specification; a value outside the
  seven anchors is treated as bottom-right.
\<close>

theorem get_position_table:
  "padding = 20
   \<and> get_position W H textW textH ''top-left'' = (20, 20)
   \<and> get_position W H textW textH ''top-center'' = ((W - textW) div 2, 20)
   \<and> get_position W H textW textH ''top-right'' = (W - textW - 20, 20)
   \<and> get_position W H textW textH ''center'' = ((W - textW) div 2, (H - textH) div 2)
   \<and> get_position W H textW textH ''bottom-left'' = (20, H - textH - 20)
   \<and> get_position W H textW textH ''bottom-center'' = ((W - textW) div 2, H - textH - 20)
   \<and> get_position W H textW textH ''bottom-right'' = (W - textW - 20, H - textH - 20)
   \<and> (\<not> List.member anchors position \<longrightarrow>
        get_position W H textW textH position = (W - textW - 20, H - textH - 20))"
  by (simp add: get_position_def padding_def anchors_def)

theorem get_position_table_witness:
  "get_position 641 480 200 41 ''center'' = (220, 219)
   \<and> get_position 100 60 90 30 ''top-right'' = (-10, 20)
   \<and> \<not> List.member anchors ''nowhere''
   \<and> get_position 641 480 200 41 ''nowhere'' = (421, 419)"
  using get_position_table [of 641 480 200 41 "''nowhere''"]
    get_position_table [of 100 60 90 30 "''nowhere''"]
  by (simp add: anchors_def)

section \<open>Properties of the Metadata Reader\<close>



subsection \<open>The sample installation, evaluated\<close>

lemma sample_open:
  "Image_open (fs sample_world) ''photos/a.jpg''
     = Inr (photo (GetexifDict [(271, Str ''ACME''), (36867, Str ''2023:10:15 12:30:45'')]))"
  "Image_open (fs sample_world) ''photos/b.jpg''
     = Inr (photo (GetexifDict [(36867, Str ''2023:01:05 08:00:00'')]))"
  "Image_open (fs sample_world) ''photos/c.jpg'' = Inr (photo GetexifNone)"
  "Image_open (fs sample_world) ''photos/d.jpg'' = Inr (photo (GetexifDict [(271, Str ''ACME'')]))"
  "Image_open (fs sample_world) ''photos/e.jpg'' = Inl Image_open_error"
  "Image_open (fs sample_world) ''album/one.jpg''
     = Inr (photo (GetexifDict [(36867, Str ''yesterday'')]))"
  by (simp_all add: Image_open_def sample_world_def sample_fs_def)




lemma str_samples:
  "str_int 2023 = ''2023''" "str_int 2026 = ''2026''" "str_int 1 = ''1''" "str_int 5 = ''5''"
  "str_int 6 = ''6''" "str_int 10 = ''10''" "str_int 11 = ''11''" "str_int 15 = ''15''"
  by (simp_all add: str_int_def str_nat.simps digit_def)

lemma sample_today:
  "strftime (now sample_library)
     = ustr ''2026'' @ [24180] @ ustr ''11'' @ [26376] @ ustr ''06'' @ [26085]"
  by (simp add: strftime_def sample_library_def zfill_def str_samples)

subsection \<open>Failures of the reader\<close>




subsection \<open>The text of the watermark\<close>














section \<open>Properties of the Renderer\<close>

lemma open_rgba_mode: "open_rgba L f p = Inr img \<Longrightarrow> mode img = ''RGBA''"
  by (auto simp add: open_rgba_def convert_def split: sum.splits if_splits)

lemma draw_text_mode: "draw_text L img xy txt fnt fill = Inr img' \<Longrightarrow> mode img' = mode img"
  by (auto simp add: draw_text_def split: if_splits)

lemma draw_text_drawn:
  "draw_text L img xy txt fnt fill = Inr img' \<Longrightarrow> drawn img' = drawn img @ [Text xy txt fnt fill]"
  by (auto simp add: draw_text_def split: if_splits)

lemma shadow_color_black: "shadow_color color = ''black''"
  by (simp add: shadow_color_def)

lemma working_image_stages:
  assumes "working_image L w p font_size color position = (Inr img2, w2)"
  shows "\<exists>img b0 b1 b2 b3 img1.
           open_rgba L (fs w) p = Inr img
         \<and> textbbox L (fst (load_font L (snd (watermark_text L w p)) font_size))
              (fst (watermark_text L w p)) = Some (b0, b1, b2, b3)
         \<and> draw_text L img
              (fst (get_position (width img) (height img) (b2 - b0) (b3 - b1) position) + 2,
               snd (get_position (width img) (height img) (b2 - b0) (b3 - b1) position) + 2)
              (fst (watermark_text L w p))
              (fst (load_font L (snd (watermark_text L w p)) font_size)) ''black'' = Inr img1
         \<and> draw_text L img1
              (get_position (width img) (height img) (b2 - b0) (b3 - b1) position)
              (fst (watermark_text L w p))
              (fst (load_font L (snd (watermark_text L w p)) font_size)) color = Inr img2"
  using assms
  by (auto simp add: working_image_def Let_def shadow_color_black
      split: sum.splits prod.splits option.splits)

lemma render_working_image:
  assumes "fst (render L w p outp font_size color position) = Inr saved"
  shows "\<exists>img w1. working_image L w p font_size color position = (Inr img, w1)
           \<and> (if mode img = ''RGBA'' then convert L img ''RGB'' else Inr img) = Inr saved
           \<and> fs (snd (render L w p outp font_size color position)) outp
               = Some (File (Picture saved))"
  using assms
  by (auto simp add: render_def say_def split: sum.splits prod.splits if_splits)

lemma sample_library_fields:
  "truetype sample_library path sz
     = (path = ''/usr/share/fonts/truetype/dejavu/DejaVuSans.ttf'' \<and> 0 < sz)"
  "textbbox sample_library fnt t = Some (0, 8, 20 * int (length t), 38)"
  "color_known sample_library c = List.member [''white'', ''black'', ''red''] c"
  "can_convert sample_library m m' = True"
  "can_save sample_library path img
     = List.member [''jpg'', ''jpeg'', ''png'', ''bmp'', ''tiff'', ''webp'']
         (map lower_char (extension path))"
  by (simp_all add: sample_library_def)

lemma sample_extension: "map lower_char (extension ''photos/photos_watermark/c.jpg'') = ''jpg''"
  by (simp add: extension_def lower_char_def)

lemma sample_render:
  "fst (render sample_library sample_world ''photos/c.jpg'' ''photos/photos_watermark/c.jpg''
          36 ''black'' ''top-left'')
   = Inr \<lparr>mode = ''RGB'', width = 640, height = 480, exif = GetexifNone,
          drawn = [Text (22, 22) (ustr ''2026'' @ [24180] @ ustr ''11'' @ [26376] @ ustr ''06''
                                   @ [26085])
                     (TrueType ''/usr/share/fonts/truetype/dejavu/DejaVuSans.ttf'' 36) ''black'',
                   Text (20, 20) (ustr ''2026'' @ [24180] @ ustr ''11'' @ [26376] @ ustr ''06''
                                   @ [26085])
                     (TrueType ''/usr/share/fonts/truetype/dejavu/DejaVuSans.ttf'' 36) ''black'']\<rparr>"
  by (simp add: render_def working_image_def open_rgba_def watermark_text_def
      get_exif_datetime_def read_exif_def load_font_def draw_text_def convert_def
      shadow_color_def get_position_def padding_def sample_open photo_def sample_today
      sample_library_fields sample_extension Let_def)

text \<open>
  C8: whenever the Renderer writes an image, it has drawn on the opened image first the
  watermark text at the resolved position moved by 2 to the right and 2 down, filled
  black whatever the requested colour is (black too), and then the same text in the same
  font at the resolved position in the requested colour.
\<close>

theorem render_shadow_then_text:
  assumes "fst (render L w image_path output_path font_size color position) = Inr saved"
  shows "shadow_color color = ''black''
    \<and> (\<exists>img b0 b1 b2 b3.
          open_rgba L (fs w) image_path = Inr img
        \<and> textbbox L (fst (load_font L (snd (watermark_text L w image_path)) font_size))
             (fst (watermark_text L w image_path)) = Some (b0, b1, b2, b3)
        \<and> drawn saved = drawn img @
            [Text (fst (get_position (width img) (height img) (b2 - b0) (b3 - b1) position) + 2,
                   snd (get_position (width img) (height img) (b2 - b0) (b3 - b1) position) + 2)
               (fst (watermark_text L w image_path))
               (fst (load_font L (snd (watermark_text L w image_path)) font_size))
               ''black'',
             Text (get_position (width img) (height img) (b2 - b0) (b3 - b1) position)
               (fst (watermark_text L w image_path))
               (fst (load_font L (snd (watermark_text L w image_path)) font_size))
               color])"
proof -
  from render_working_image [OF assms] obtain img2 w1 where
    wi: "working_image L w image_path font_size color position = (Inr img2, w1)"
    and sv: "(if mode img2 = ''RGBA'' then convert L img2 ''RGB'' else Inr img2) = Inr saved"
    by blast
  from working_image_stages [OF wi] obtain img b0 b1 b2 b3 img1 where
    opened: "open_rgba L (fs w) image_path = Inr img"
    and bb: "textbbox L (fst (load_font L (snd (watermark_text L w image_path)) font_size))
              (fst (watermark_text L w image_path)) = Some (b0, b1, b2, b3)"
    and d1: "draw_text L img
              (fst (get_position (width img) (height img) (b2 - b0) (b3 - b1) position) + 2,
               snd (get_position (width img) (height img) (b2 - b0) (b3 - b1) position) + 2)
              (fst (watermark_text L w image_path))
              (fst (load_font L (snd (watermark_text L w image_path)) font_size)) ''black''
            = Inr img1"
    and d2: "draw_text L img1
              (get_position (width img) (height img) (b2 - b0) (b3 - b1) position)
              (fst (watermark_text L w image_path))
              (fst (load_font L (snd (watermark_text L w image_path)) font_size)) color
            = Inr img2"
    by blast
  have "drawn saved = drawn img2"
    using sv by (auto simp add: convert_def split: if_splits)
  then have "drawn saved = drawn img @
            [Text (fst (get_position (width img) (height img) (b2 - b0) (b3 - b1) position) + 2,
                   snd (get_position (width img) (height img) (b2 - b0) (b3 - b1) position) + 2)
               (fst (watermark_text L w image_path))
               (fst (load_font L (snd (watermark_text L w image_path)) font_size))
               ''black'',
             Text (get_position (width img) (height img) (b2 - b0) (b3 - b1) position)
               (fst (watermark_text L w image_path))
               (fst (load_font L (snd (watermark_text L w image_path)) font_size))
               color]"
    using draw_text_drawn [OF d1] draw_text_drawn [OF d2] by simp
  from opened bb this show ?thesis
    using shadow_color_black by blast
qed

theorem render_shadow_then_text_witness:
  "shadow_color ''black'' = ''black''
   \<and> (\<exists>saved. fst (render sample_library sample_world ''photos/c.jpg''
          ''photos/photos_watermark/c.jpg'' 36 ''black'' ''top-left'') = Inr saved
        \<and> drawn saved =
           [Text (22, 22) (ustr ''2026'' @ [24180] @ ustr ''11'' @ [26376] @ ustr ''06''
                            @ [26085])
              (TrueType ''/usr/share/fonts/truetype/dejavu/DejaVuSans.ttf'' 36) ''black'',
            Text (20, 20) (ustr ''2026'' @ [24180] @ ustr ''11'' @ [26376] @ ustr ''06''
                            @ [26085])
              (TrueType ''/usr/share/fonts/truetype/dejavu/DejaVuSans.ttf'' 36) ''black''])"
  using render_shadow_then_text [OF sample_render] sample_render
  by simp

text \<open>
  C10: every image that the Renderer writes has mode RGB. The image is in mode RGBA
  after lines 53 to 56 whatever the mode of the file was, it is still in mode RGBA when
  the drawing is done, so that the test of line 96 holds, and what is written is that
  image converted to RGB.
\<close>

theorem render_saves_rgb:
  assumes "fst (render L w image_path output_path font_size color position) = Inr saved"
  shows "mode saved = ''RGB''
    \<and> (\<exists>img. open_rgba L (fs w) image_path = Inr img \<and> mode img = ''RGBA'')
    \<and> (\<exists>img w1. working_image L w image_path font_size color position = (Inr img, w1)
          \<and> mode img = ''RGBA'' \<and> convert L img ''RGB'' = Inr saved
          \<and> saved = img\<lparr>mode := ''RGB''\<rparr>)
    \<and> fs (snd (render L w image_path output_path font_size color position)) output_path
         = Some (File (Picture saved))"
proof -
  from render_working_image [OF assms] obtain img2 w1 where
    wi: "working_image L w image_path font_size color position = (Inr img2, w1)"
    and sv: "(if mode img2 = ''RGBA'' then convert L img2 ''RGB'' else Inr img2) = Inr saved"
    and wr: "fs (snd (render L w image_path output_path font_size color position)) output_path
               = Some (File (Picture saved))"
    by blast
  from working_image_stages [OF wi] obtain img b0 b1 b2 b3 img1 xy1 xy2 t fnt where
    opened: "open_rgba L (fs w) image_path = Inr img"
    and d1: "draw_text L img xy1 t fnt ''black'' = Inr img1"
    and d2: "draw_text L img1 xy2 t fnt color = Inr img2"
    by blast
  have m0: "mode img = ''RGBA''"
    using opened by (rule open_rgba_mode)
  have m2: "mode img2 = ''RGBA''"
    using draw_text_mode [OF d1] draw_text_mode [OF d2] m0 by simp
  have c: "convert L img2 ''RGB'' = Inr saved"
    using sv m2 by simp
  have s: "saved = img2\<lparr>mode := ''RGB''\<rparr>"
    using c by (auto simp add: convert_def split: if_splits)
  have "mode saved = ''RGB''"
    using s by simp
  from this opened m0 wi m2 c s wr show ?thesis by blast
qed

theorem render_saves_rgb_witness:
  "(\<exists>saved. fst (render sample_library sample_world ''photos/c.jpg''
          ''photos/photos_watermark/c.jpg'' 36 ''black'' ''top-left'') = Inr saved
      \<and> mode saved = ''RGB''
      \<and> fs (snd (render sample_library sample_world ''photos/c.jpg''
             ''photos/photos_watermark/c.jpg'' 36 ''black'' ''top-left''))
           ''photos/photos_watermark/c.jpg'' = Some (File (Picture saved)))
   \<and> mode (photo GetexifNone) = ''RGB''
   \<and> (\<exists>img. open_rgba sample_library (fs sample_world) ''photos/c.jpg'' = Inr img
          \<and> mode img = ''RGBA'')"
  using render_saves_rgb [OF sample_render] sample_render
  by (simp add: photo_def)

section \<open>Properties of the Batch Driver\<close>

lemma fs_say: "fs (say ms w) = fs w"
  by (simp add: say_def)

lemma out_say: "out (say ms w) = out w @ ms"
  by (simp add: say_def)

lemma process_images_count:
  "snd (process_images L a od files (w, n)) = n + int (length files)"
  by (induction files arbitrary: w n) (simp_all add: Let_def)

lemma process_images_append:
  "process_images L a od (xs @ ys) s = process_images L a od ys (process_images L a od xs s)"
proof (induction xs arbitrary: s)
  case Nil
  show ?case by (cases s) simp
next
  case (Cons x xs)
  show ?case by (cases s) (simp add: Let_def Cons.IH)
qed

lemma get_exif_datetime_fs: "fs (snd (get_exif_datetime L w p)) = fs w"
  by (simp add: get_exif_datetime_def fs_say split: sum.split)

lemma watermark_text_fs: "fs (snd (watermark_text L w p)) = fs w"
  using get_exif_datetime_fs [of L w p]
  by (cases "get_exif_datetime L w p")
    (simp add: watermark_text_def Let_def fs_say split: option.split)

lemma load_font_fs: "fs (snd (load_font L w n)) = fs w"
  by (simp add: load_font_def fs_say)

lemma working_image_fs: "fs (snd (working_image L w p n c pos)) = fs w"
  using watermark_text_fs [of L w p] load_font_fs [of L "snd (watermark_text L w p)" n]
  by (cases "watermark_text L w p"; cases "load_font L (snd (watermark_text L w p)) n")
    (simp add: working_image_def Let_def split: sum.split option.split prod.split)

lemma render_fs_other:
  "q \<noteq> outp \<Longrightarrow> fs (snd (render L w p outp n c pos)) q = fs w q"
  using working_image_fs [of L w p n c pos]
  by (cases "working_image L w p n c pos")
    (simp add: render_def fs_say split: sum.split prod.split)

lemma add_watermark_fs_other:
  "q \<noteq> outp \<Longrightarrow> fs (add_watermark L w p outp n c pos) q = fs w q"
  using render_fs_other [of q outp L w p n c pos]
  by (cases "render L w p outp n c pos")
    (simp add: add_watermark_def fs_say split: sum.split)

lemma add_watermark_undecodable:
  "Image_open (fs w) p = Inl e \<Longrightarrow>
     add_watermark L w p outp n c pos = say [ProcessError p e] w"
  by (simp add: add_watermark_def render_def working_image_def open_rgba_def)

lemma process_images_fs_other:
  "q \<notin> set (map (\<lambda>p. join od (basename p)) files) \<Longrightarrow>
     fs (fst (process_images L a od files (w, n))) q = fs w q"
proof (induction files arbitrary: w n)
  case Nil
  show ?case by simp
next
  case (Cons p files)
  then show ?case
    by (simp add: Let_def add_watermark_fs_other fs_say)
qed

lemma main_started:
  assumes "exists (fs w) (args_image_path a)"
    and "resolve_input (fs w) (args_image_path a) = (files, input_dir)"
    and "files \<noteq> []"
    and "makedirs (fs w) (join input_dir (basename input_dir @ ''_watermark'')) = Inr f1"
  shows "main L a w =
     \<lparr>status = 0,
      final = say [Rule, Done (tally (int (length files)) (int (length files)))]
        (fst (process_images L a (join input_dir (basename input_dir @ ''_watermark'')) files
           (say [Found (int (length files)),
                 OutputDir (join input_dir (basename input_dir @ ''_watermark'')),
                 Settings (args_font_size a) (args_color a) (args_position a), Rule]
              (w\<lparr>fs := f1\<rparr>), 0)))\<rparr>"
  using assms
    process_images_count [of L a "join input_dir (basename input_dir @ ''_watermark'')" files
      "say [Found (int (length files)),
            OutputDir (join input_dir (basename input_dir @ ''_watermark'')),
            Settings (args_font_size a) (args_color a) (args_position a), Rule]
         (w\<lparr>fs := f1\<rparr>)" 0]
  by (auto simp add: main_def Let_def split: prod.split)

lemma sample_photos:
  "resolve_input sample_fs ''photos''
     = ([''photos/a.jpg'', ''photos/b.jpg'', ''photos/c.jpg'', ''photos/d.jpg'', ''photos/e.jpg''],
        ''photos'')"
  by code_simp

lemma sample_paths:
  "join ''photos'' (basename ''photos'' @ ''_watermark'') = ''photos/photos_watermark''"
  "basename ''photos/a.jpg'' = ''a.jpg''" "basename ''photos/b.jpg'' = ''b.jpg''"
  "basename ''photos/c.jpg'' = ''c.jpg''" "basename ''photos/d.jpg'' = ''d.jpg''"
  "basename ''photos/e.jpg'' = ''e.jpg''"
  "join ''photos/photos_watermark'' ''a.jpg'' = ''photos/photos_watermark/a.jpg''"
  "join ''photos/photos_watermark'' ''b.jpg'' = ''photos/photos_watermark/b.jpg''"
  "join ''photos/photos_watermark'' ''c.jpg'' = ''photos/photos_watermark/c.jpg''"
  "join ''photos/photos_watermark'' ''d.jpg'' = ''photos/photos_watermark/d.jpg''"
  "join ''photos/photos_watermark'' ''e.jpg'' = ''photos/photos_watermark/e.jpg''"
  by (simp_all add: join_def basename_def)

lemma tally_5: "tally 5 5 = ''5/5''"
  by (simp add: tally_def str_int_def str_nat.simps digit_def)

text \<open>
  C1 does not hold of the code: the count goes up at every file, since the Renderer
  catches its own failures. The sample directory photos holds four images that decode
  and e.jpg, which does not. The run ends with status 0, it prints the failure of
  e.jpg and writes no file for it, and the tally of its last line is 5/5 where the claim
  says 4/5.
\<close>

theorem tally_counts_undecodable_image:
  "fst (resolve_input sample_fs ''photos'')
     = [''photos/a.jpg'', ''photos/b.jpg'', ''photos/c.jpg'', ''photos/d.jpg'', ''photos/e.jpg'']
   \<and> sample_fs ''photos/e.jpg'' = Some (File Undecodable)
   \<and> status (main sample_library (sample_args ''photos'') sample_world) = 0
   \<and> (\<exists>before. out (final (main sample_library (sample_args ''photos'') sample_world))
         = before @ [Processing ''e.jpg'', ProcessError ''photos/e.jpg'' Image_open_error,
                     Rule, Done ''5/5''])
   \<and> fs (final (main sample_library (sample_args ''photos'') sample_world))
        ''photos/photos_watermark/e.jpg'' = None"
proof -
  define a where "a = sample_args ''photos''"
  define f1 where "f1 = sample_fs(''photos/photos_watermark'' \<mapsto> Dir [])"
  define w0 where "w0 = say [Found 5, OutputDir ''photos/photos_watermark'',
      Settings (args_font_size a) (args_color a) (args_position a), Rule]
      (sample_world\<lparr>fs := f1\<rparr>)"
  define s4 where "s4 = process_images sample_library a ''photos/photos_watermark''
      [''photos/a.jpg'', ''photos/b.jpg'', ''photos/c.jpg'', ''photos/d.jpg''] (w0, 0)"
  define s5 where "s5 = process_images sample_library a ''photos/photos_watermark''
      [''photos/a.jpg'', ''photos/b.jpg'', ''photos/c.jpg'', ''photos/d.jpg'', ''photos/e.jpg'']
      (w0, 0)"
  define w5 where "w5 = say [ProcessError ''photos/e.jpg'' Image_open_error]
      (say [Processing ''e.jpg''] (fst s4))"
  have path: "args_image_path a = ''photos''"
    by (simp add: a_def sample_args_def)
  have corrupt: "sample_fs ''photos/e.jpg'' = Some (File Undecodable)"
    by (simp add: sample_fs_def)
  have ex: "exists (fs sample_world) (args_image_path a)"
    by (simp add: path exists_def sample_world_def sample_fs_def)
  have ri: "resolve_input (fs sample_world) (args_image_path a)
     = ([''photos/a.jpg'', ''photos/b.jpg'', ''photos/c.jpg'', ''photos/d.jpg'',
         ''photos/e.jpg''], ''photos'')"
    using sample_photos by (simp add: path sample_world_def)
  have mk: "makedirs (fs sample_world) (join ''photos'' (basename ''photos'' @ ''_watermark''))
     = Inr f1"
    by (simp add: sample_paths makedirs_def sample_world_def sample_fs_def f1_def)
  have run: "main sample_library a sample_world =
     \<lparr>status = 0, final = say [Rule, Done ''5/5''] (fst s5)\<rparr>"
    using main_started [OF ex ri _ mk, of sample_library]
    by (simp add: sample_paths tally_5 w0_def s5_def del: process_images.simps)
  have split: "s5 = process_images sample_library a ''photos/photos_watermark''
      [''photos/e.jpg''] s4"
    using process_images_append [of sample_library a "''photos/photos_watermark''"
        "[''photos/a.jpg'', ''photos/b.jpg'', ''photos/c.jpg'', ''photos/d.jpg'']"
        "[''photos/e.jpg'']" "(w0, 0)"]
    by (simp add: s4_def s5_def del: process_images.simps)
  have fs4: "fs (fst s4) q = f1 q"
    if "q \<noteq> ''photos/photos_watermark/a.jpg''" and "q \<noteq> ''photos/photos_watermark/b.jpg''"
      and "q \<noteq> ''photos/photos_watermark/c.jpg''" and "q \<noteq> ''photos/photos_watermark/d.jpg''"
    for q
    using that process_images_fs_other [of q "''photos/photos_watermark''"
        "[''photos/a.jpg'', ''photos/b.jpg'', ''photos/c.jpg'', ''photos/d.jpg'']"
        sample_library a w0 0]
    by (simp add: s4_def sample_paths w0_def fs_say del: process_images.simps)
  have "fs (fst s4) ''photos/e.jpg'' = Some (File Undecodable)"
    using fs4 [of "''photos/e.jpg''"] corrupt by (simp add: f1_def)
  then have unreadable:
    "Image_open (fs (say [Processing ''e.jpg''] (fst s4))) ''photos/e.jpg'' = Inl Image_open_error"
    by (simp add: Image_open_def fs_say)
  have last_step: "process_images sample_library a ''photos/photos_watermark''
      [''photos/e.jpg''] s4 = (w5, snd s4 + 1)"
    using add_watermark_undecodable [OF unreadable]
    by (cases s4) (simp add: Let_def sample_paths w5_def)
  have fin: "final (main sample_library a sample_world) = say [Rule, Done ''5/5''] w5"
    using last_step by (simp add: run split)
  have outs: "out (final (main sample_library a sample_world))
      = out (fst s4) @ [Processing ''e.jpg'', ProcessError ''photos/e.jpg'' Image_open_error,
                        Rule, Done ''5/5'']"
    by (simp add: fin w5_def out_say)
  have "fs (final (main sample_library a sample_world)) ''photos/photos_watermark/e.jpg''
      = f1 ''photos/photos_watermark/e.jpg''"
    using fs4 [of "''photos/photos_watermark/e.jpg''"] by (simp add: fin w5_def fs_say)
  then have unsaved:
    "fs (final (main sample_library a sample_world)) ''photos/photos_watermark/e.jpg'' = None"
    by (simp add: f1_def sample_fs_def)
  have st: "status (main sample_library a sample_world) = 0"
    by (simp add: run)
  show ?thesis
    using sample_photos corrupt st outs unsaved unfolding a_def by simp
qed

text \<open>
  C9: for a path that exists and is a regular file the working set is that one path,
  whatever its extension; the scan by extension is what a path that is not a regular file
  gets.
\<close>

theorem resolve_input_single_file:
  "(exists f path \<and> isfile f path \<longrightarrow> fst (resolve_input f path) = [path])
   \<and> (\<not> isfile f path \<longrightarrow>
        fst (resolve_input f path) = foldl (extend_files f path) [] image_extensions)"
  by (simp add: resolve_input_def)

lemma sample_album:
  "foldl (extend_files sample_fs ''album'') [] image_extensions
     = [''album/one.jpg'', ''album/TWO.PNG'']"
  by code_simp

theorem resolve_input_single_file_witness:
  "exists sample_fs ''album/notes.txt'' \<and> isfile sample_fs ''album/notes.txt''
   \<and> extension ''album/notes.txt'' = ''txt''
   \<and> fst (resolve_input sample_fs ''album/notes.txt'') = [''album/notes.txt'']
   \<and> fst (resolve_input sample_fs ''album'') = [''album/one.jpg'', ''album/TWO.PNG'']"
proof -
  have e: "exists sample_fs ''album/notes.txt''"
    by (simp add: exists_def sample_fs_def)
  have f: "isfile sample_fs ''album/notes.txt''"
    by (simp add: isfile_def sample_fs_def)
  have d: "\<not> isfile sample_fs ''album''"
    by (simp add: isfile_def sample_fs_def)
  have x: "extension ''album/notes.txt'' = ''txt''"
    by (simp add: extension_def)
  show ?thesis
    using resolve_input_single_file [of sample_fs "''album/notes.txt''"]
      resolve_input_single_file [of sample_fs "''album''"] e f d x
    by (simp add: sample_album)
qed




lemma fnmatch_literal:
  "list_all (\<lambda>c. c \<noteq> CHR ''*'' \<and> c \<noteq> CHR ''?'') lit \<Longrightarrow> fnmatch name lit = (name = lit)"
proof (induction lit arbitrary: name)
  case Nil
  show ?case by simp
next
  case (Cons p lit)
  then show ?case by (cases name) auto
qed

lemma endswith_iff: "endswith name suffix = (\<exists>pre. name = pre @ suffix)"
proof
  assume e: "endswith name suffix"
  then have "drop (length name - length suffix) name = suffix"
    by (simp add: endswith_def)
  then have "name = take (length name - length suffix) name @ suffix"
    by (metis append_take_drop_id)
  then show "\<exists>pre. name = pre @ suffix" ..
next
  assume "\<exists>pre. name = pre @ suffix"
  then show "endswith name suffix" by (auto simp add: endswith_def)
qed

lemma fnmatch_star:
  assumes "list_all (\<lambda>c. c \<noteq> CHR ''*'' \<and> c \<noteq> CHR ''?'') lit"
  shows "fnmatch name (CHR ''*'' # lit) = endswith name lit"
proof (induction name)
  case Nil
  show ?case using fnmatch_literal [OF assms, of "[]"] by (auto simp add: endswith_iff)
next
  case (Cons c rest)
  have "fnmatch (c # rest) (CHR ''*'' # lit) = (c # rest = lit \<or> endswith rest lit)"
    using fnmatch_literal [OF assms, of "c # rest"] Cons.IH by simp
  also have "\<dots> = endswith (c # rest) lit"
    by (auto simp add: endswith_iff Cons_eq_append_conv)
  finally show ?case .
qed

lemma join_plain:
  assumes "d \<noteq> []" and "last d \<noteq> CHR ''/''" and "CHR ''/'' \<notin> set name"
  shows "join d name = d @ CHR ''/'' # name"
  using assms by (cases name) (auto simp add: join_def)

lemma basename_plain:
  assumes "CHR ''/'' \<notin> set name"
  shows "basename (d @ CHR ''/'' # name) = name"
proof -
  have "takeWhile (\<lambda>c. c \<noteq> CHR ''/'') (rev name @ CHR ''/'' # rev d) = rev name"
    using assms takeWhile_append2 [of "rev name" "\<lambda>c. c \<noteq> CHR ''/''" "CHR ''/'' # rev d"]
    by auto
  then show ?thesis by (simp add: basename_def)
qed

lemma dirname_plain:
  assumes "d \<noteq> []" and "last d \<noteq> CHR ''/''" and "CHR ''/'' \<notin> set name"
  shows "dirname (d @ CHR ''/'' # name) = d"
proof -
  have h: "dropWhile (\<lambda>c. c \<noteq> CHR ''/'') (rev name @ CHR ''/'' # rev d) = CHR ''/'' # rev d"
    using assms(3) dropWhile_append2 [of "rev name" "\<lambda>c. c \<noteq> CHR ''/''" "CHR ''/'' # rev d"]
    by auto
  have hd: "head_of (d @ CHR ''/'' # name) = d @ ''/''"
    using h by (simp add: head_of_def)
  obtain c cs where r: "rev d = c # cs" and c: "c \<noteq> CHR ''/''"
    using assms(1,2) by (cases "rev d") (auto simp add: last_rev [symmetric] simp del: last_rev)
  have na: "\<not> list_all (\<lambda>c. c = CHR ''/'') (d @ ''/'')"
  proof -
    have "c \<in> set d" using r by (metis list.set_intros(1) set_rev)
    then show ?thesis using c by (auto simp add: list_all_iff)
  qed
  have "rstrip_sep (d @ ''/'') = d"
    using r c by (simp add: rstrip_sep_def)
  then show ?thesis
    using hd na by (simp add: dirname_def Let_def)
qed

lemma glob_glob_plain:
  assumes "d \<noteq> []" and "last d \<noteq> CHR ''/''" and "CHR ''/'' \<notin> set pat"
  shows "glob_glob f (join d pat) = map (join d) (glob1 f d pat)"
  using assms
  by (simp add: glob_glob_def join_plain [OF assms] basename_plain dirname_plain Let_def)

lemma glob1_star:
  assumes "d \<noteq> []" and "list_all (\<lambda>c. c \<noteq> CHR ''*'' \<and> c \<noteq> CHR ''?'') lit"
  shows "set (glob1 f d (CHR ''*'' # lit))
         = {x \<in> set (listdir f d). \<not> ishidden x \<and> endswith x lit}"
  using assms(1)
  by (auto simp add: glob1_def ishidden_def Let_def fnmatch_star [OF assms(2)]
      simp del: fnmatch.simps)

lemma scan_one:
  assumes "d \<noteq> []" and "last d \<noteq> CHR ''/''" and "CHR ''/'' \<notin> set lit"
    and "list_all (\<lambda>c. c \<noteq> CHR ''*'' \<and> c \<noteq> CHR ''?'') lit"
  shows "set (glob_glob f (join d (CHR ''*'' # lit)))
         = join d ` {x \<in> set (listdir f d). \<not> ishidden x \<and> endswith x lit}"
proof -
  have "CHR ''/'' \<notin> set (CHR ''*'' # lit)" using assms(3) by simp
  from glob_glob_plain [OF assms(1,2) this]
  show ?thesis by (simp add: glob1_star [OF assms(1,4)])
qed

lemma upper_ext:
  "upper ''*.jpg'' = ''*.JPG''" "upper ''*.jpeg'' = ''*.JPEG''" "upper ''*.png'' = ''*.PNG''"
  "upper ''*.bmp'' = ''*.BMP''" "upper ''*.tiff'' = ''*.TIFF''" "upper ''*.webp'' = ''*.WEBP''"
  by code_simp+

lemma scanned_iff:
  "scanned x = (\<not> ishidden x \<and>
     (endswith x ''.jpg'' \<or> endswith x ''.JPG'' \<or> endswith x ''.jpeg'' \<or> endswith x ''.JPEG''
      \<or> endswith x ''.png'' \<or> endswith x ''.PNG'' \<or> endswith x ''.bmp'' \<or> endswith x ''.BMP''
      \<or> endswith x ''.tiff'' \<or> endswith x ''.TIFF'' \<or> endswith x ''.webp''
      \<or> endswith x ''.WEBP''))"
  by (simp add: scanned_def image_extensions_def upper_ext)

lemma sample_album_scanned:
  "map (join ''album'') (filter scanned (listdir sample_fs ''album''))
     = [''album/one.jpg'', ''album/TWO.PNG'']"
  by code_simp

text \<open>
  C5, as stated, fails: the sample directory album holds photo.Jpg, whose extension
  is jpg when letter case is ignored, and the working set of album does not hold it.
\<close>

theorem scan_misses_mixed_case:
  "\<not> isfile sample_fs ''album''
   \<and> List.member (listdir sample_fs ''album'') ''photo.Jpg''
   \<and> map lower_char (extension ''photo.Jpg'') = ''jpg''
   \<and> List.member (spec_working_set sample_fs ''album'') ''album/photo.Jpg''
   \<and> \<not> List.member (fst (resolve_input sample_fs ''album'')) ''album/photo.Jpg''
   \<and> fst (resolve_input sample_fs ''album'') = [''album/one.jpg'', ''album/TWO.PNG'']"
  by code_simp

text \<open>
  C5, amended: for a directory (named without a trailing slash and without pattern
  characters) the working set is made of the entries directly in it whose name does not
  begin with a dot and ends in a dot and one of jpg, jpeg, png, bmp, tiff, webp, written
  all in lower case or all in upper case. An extension in mixed case, as in photo.Jpg,
  is not matched.
\<close>

theorem scan_matches_lower_or_upper:
  assumes "\<not> isfile f d" and "d \<noteq> []" and "last d \<noteq> CHR ''/''" and "\<not> has_magic d"
  shows "set (fst (resolve_input f d)) = set (map (join d) (filter scanned (listdir f d)))"
proof -
  note one = scan_one [OF assms(2,3), of _ f]
  have files: "fst (resolve_input f d) = foldl (extend_files f d) [] image_extensions"
    using assms(1) by (simp add: resolve_input_def)
  have "set (foldl (extend_files f d) [] image_extensions)
        = join d ` {x \<in> set (listdir f d). scanned x}"
    unfolding scanned_iff
    by (simp add: image_extensions_def extend_files_def upper_ext one) blast
  then show ?thesis using files by auto
qed

theorem scan_matches_lower_or_upper_witness:
  "\<not> isfile sample_fs ''album'' \<and> \<not> has_magic ''album''
   \<and> listdir sample_fs ''album''
       = [''photo.Jpg'', ''one.jpg'', ''TWO.PNG'', ''.hidden.jpg'', ''notes.txt'']
   \<and> set (fst (resolve_input sample_fs ''album'')) = {''album/one.jpg'', ''album/TWO.PNG''}"
proof -
  have d: "\<not> isfile sample_fs ''album''"
    by (simp add: isfile_def sample_fs_def)
  have m: "\<not> has_magic ''album''"
    by (simp add: has_magic_def)
  have l: "listdir sample_fs ''album''
       = [''photo.Jpg'', ''one.jpg'', ''TWO.PNG'', ''.hidden.jpg'', ''notes.txt'']"
    by (simp add: listdir_def sample_fs_def)
  have s: "set (fst (resolve_input sample_fs ''album''))
       = set (map (join ''album'') (filter scanned (listdir sample_fs ''album'')))"
    by (rule scan_matches_lower_or_upper [OF d _ _ m]) simp_all
  have "set (fst (resolve_input sample_fs ''album'')) = {''album/one.jpg'', ''album/TWO.PNG''}"
    unfolding s sample_album_scanned by simp
  then show ?thesis
    using d m l by simp
qed

end
